theory Spec2Isabelle
  imports Complex_Main
begin

section \<open>Inference-server discovery and routing (lib/db/inference-host-source.ts)\<close>

text \<open>
  A shallow embedding of the discovery cache, the model matcher and the host selectors of
  \<^verbatim>\<open>inference-host-source.ts\<close> (the later of the two versions of the file, the one
  with \<^verbatim>\<open>normalizeModelName\<close> and \<^verbatim>\<open>isModelMatch\<close>), and of the admin route
  \<^verbatim>\<open>app/api/admin/inference-servers/route.ts\<close>.

  Conventions of the embedding:
  \<^item> the two module-level variables \<^verbatim>\<open>_cachedServers\<close> and \<^verbatim>\<open>_lastDiscovery\<close> are a
    record that every function takes and returns;
  \<^item> what a call reads from outside (the clock, the configuration flags, the answers of the
    probed ports and the order in which the probes settle, the catalog store, the two
    imported helpers and \<^verbatim>\<open>Math.random\<close>) is a record \<open>env\<close>;
  \<^item> every function also returns the list of URLs it sent a health request to, in the order
    of the requests, so that "no probe was issued" is the empty list;
  \<^item> a thrown exception is \<open>Inl\<close> of a sum, \<^verbatim>\<open>null\<close> is \<open>None\<close>;
  \<^item> calls are modelled one at a time: interleavings of concurrent callers are not modelled;
  \<^item> \<open>modelId\<close> is the field of a descriptor, so the parameter \<^verbatim>\<open>modelId\<close> of the
    functions is written \<open>requested\<close> and the column \<^verbatim>\<open>modelId\<close> of a source
    \<open>sourceModelId\<close>.
\<close>

subsection \<open>Strings\<close>

text \<open>
  Model identifiers are \<open>string\<close>s. \<^verbatim>\<open>toLowerCase\<close> maps \<^verbatim>\<open>A-Z\<close> to \<^verbatim>\<open>a-z\<close> and leaves
  every other character of the model as it is; the characters that JavaScript would map
  elsewhere are outside \<^verbatim>\<open>[a-z0-9]\<close> before and (but for U+212A and U+0130, which are not
  representable here) after the mapping, and the next step of the normalization deletes them.
\<close>

definition upperCase :: string where
  "upperCase = ''ABCDEFGHIJKLMNOPQRSTUVWXYZ''"

definition lowerCase :: string where
  "lowerCase = ''abcdefghijklmnopqrstuvwxyz''"

definition decimalDigits :: string where
  "decimalDigits = ''0123456789''"

definition toLowerChar :: "char \<Rightarrow> char" where
  "toLowerChar c = (case map_of (zip upperCase lowerCase) c of Some d \<Rightarrow> d | None \<Rightarrow> c)"

definition toLowerCase :: "string \<Rightarrow> string" where
  "toLowerCase s = map toLowerChar s"

text \<open>The character class \<^verbatim>\<open>[a-z0-9]\<close>.\<close>

definition isLowerAlnum :: "char \<Rightarrow> bool" where
  "isLowerAlnum c = (c \<in> set (lowerCase @ decimalDigits))"

text \<open>
  \<^verbatim>\<open>s.replace(/pat/g, rep)\<close> for a pattern that is a literal: the matches are found from
  left to right and do not overlap, and the scan resumes after each match, so the text
  inserted is never scanned again. All patterns of the source are non-empty; for the empty
  pattern the model returns the string unchanged.
\<close>

function replaceAll :: "string \<Rightarrow> string \<Rightarrow> string \<Rightarrow> string" where
  "replaceAll pat rep [] = []"
| "replaceAll pat rep (c # cs) =
     (if pat \<noteq> [] \<and> take (length pat) (c # cs) = pat
      then rep @ replaceAll pat rep (drop (length pat) (c # cs))
      else c # replaceAll pat rep cs)"
  by pat_completeness auto
termination
  by (relation "measure (\<lambda>(pat, rep, s). length s)") auto

text \<open>The pattern occurs in the string as a contiguous piece (a match of \<^verbatim>\<open>/pat/\<close>).\<close>

fun hasMatch :: "string \<Rightarrow> string \<Rightarrow> bool" where
  "hasMatch pat [] = (pat = [])"
| "hasMatch pat (c # cs) = (take (length pat) (c # cs) = pat \<or> hasMatch pat cs)"

text \<open>
  \<^verbatim>\<open>s.split(/[-_]/)\<close>: the pieces between the separators; a string without separator is
  one piece, the empty string included, so that the result is never the empty array.
\<close>

definition isSeparator :: "char \<Rightarrow> bool" where
  "isSeparator c = (c = CHR ''-'' \<or> c = CHR ''_'')"

fun split :: "string \<Rightarrow> string list" where
  "split [] = [[]]"
| "split (c # cs) =
     (if isSeparator c then [] # split cs
      else (case split cs of [] \<Rightarrow> [[c]] | p # ps \<Rightarrow> (c # p) # ps))"

text \<open>\<^verbatim>\<open>xs[i]\<close>: \<^verbatim>\<open>undefined\<close> out of range.\<close>

fun elementAt :: "'a list \<Rightarrow> nat \<Rightarrow> 'a option" where
  "elementAt [] i = None"
| "elementAt (x # xs) 0 = Some x"
| "elementAt (x # xs) (Suc i) = elementAt xs i"

subsection \<open>Model matcher\<close>

definition normalizeModelName :: "string \<Rightarrow> string" where
  "normalizeModelName modelName =
     replaceAll ''instruction'' ''it''
       (replaceAll ''instruct'' ''it''
         (replaceAll ''large'' ''''
           (replaceAll ''small'' ''''
             (filter isLowerAlnum (toLowerCase modelName)))))"

definition isModelMatch :: "string \<Rightarrow> string \<Rightarrow> bool" where
  "isModelMatch serverModel requestedModel =
     (if serverModel = requestedModel then True
      else
        let normalizedServer = normalizeModelName serverModel;
            normalizedRequested = normalizeModelName requestedModel
        in if normalizedServer = normalizedRequested then True
           else
             let serverParts = split (normalizeModelName serverModel);
                 requestedParts = split (normalizeModelName requestedModel);
                 serverCore = elementAt serverParts 0;
                 requestedCore = elementAt requestedParts 0
             in if serverCore = requestedCore
                then
                  let commonParts = filter (\<lambda>part. part \<in> set requestedParts) serverParts
                  in length commonParts \<ge> 2
                else False)"

record InferenceServerInfo =
  port :: nat
  modelId :: string
  url :: string
  health :: bool

text \<open>
  The part of \<^verbatim>\<open>getInferenceServerForModel\<close> after the snapshot has been obtained:
  \<^verbatim>\<open>Array.prototype.find\<close> returns the first element, in the order of the array, for which
  the predicate holds.
\<close>

definition selectServer :: "InferenceServerInfo list \<Rightarrow> string \<Rightarrow> string option" where
  "selectServer servers requested =
     (case find (\<lambda>server. health server \<and> isModelMatch (modelId server) requested) servers of
        Some exactMatch \<Rightarrow> Some (url exactMatch)
      | None \<Rightarrow>
          (case find (\<lambda>server. health server) servers of
             Some fallback \<Rightarrow> Some (url fallback)
           | None \<Rightarrow> None))"

subsection \<open>Discovery prober and cache\<close>

text \<open>The template literal \<^verbatim>\<open>${port}\<close>: a port number in decimal.\<close>

function decimal :: "nat \<Rightarrow> string" where
  "decimal n =
     (if n < 10 then [decimalDigits ! n]
      else decimal (n div 10) @ [decimalDigits ! (n mod 10)])"
  by pat_completeness auto
termination
  by (relation "measure (\<lambda>n. n)") auto

declare decimal.simps [simp del]

text \<open>
  What one \<^verbatim>\<open>fetch(url + '/health')\<close> of a probe comes to: the promise rejects (connection
  refused, or aborted by the 2000 ms timer), the response is not \<^verbatim>\<open>ok\<close>, the body is
  not a JSON object (\<^verbatim>\<open>json()\<close> rejects, or yields \<^verbatim>\<open>null\<close> and the property read
  throws), or the body is an object whose fields \<^verbatim>\<open>model_id\<close> and \<^verbatim>\<open>model\<close> are read.
  A field is \<open>None\<close> when it is absent or holds a falsy value that is not a string; truthy
  values that are not strings are outside the declared type of \<^verbatim>\<open>modelId\<close> and are not
  modelled.
\<close>

datatype healthResponse =
    Rejected
  | NotOk
  | BadBody
  | HealthData "string option" "string option"

text \<open>\<^verbatim>\<open>healthData.model_id || healthData.model || 'unknown'\<close>: the empty string is falsy.\<close>

definition reportedModelId :: "string option \<Rightarrow> string option \<Rightarrow> string" where
  "reportedModelId model_id model =
     (case model_id of
        Some (c # cs) \<Rightarrow> c # cs
      | _ \<Rightarrow> (case model of Some (c # cs) \<Rightarrow> c # cs | _ \<Rightarrow> ''unknown''))"

text \<open>
  A row of the catalog store as \<^verbatim>\<open>prisma.source.findMany\<close> returns it with its hosts
  included: the model and the set of the source (\<^verbatim>\<open>modelId\<close>, \<^verbatim>\<open>setName\<close>) and the
  \<^verbatim>\<open>inferenceHost.hostUrl\<close> of each of its \<^verbatim>\<open>inferenceHosts\<close>.
\<close>

record Source =
  sourceModelId :: string
  setName :: string
  inferenceHosts :: "string list"

text \<open>
  A value of \<^verbatim>\<open>Math.random()\<close>: a double that is at least 0 and less than 1, given as
  \<open>mantissa / 2 ^ scale\<close>. Every such double has this form with a mantissa below \<open>2 ^ 53\<close>
  and a scale of at most 1074 (a normal double \<open>1.f * 2 ^ e\<close> with \<open>e < 0\<close> is
  \<open>(2 ^ 52 + f) / 2 ^ (52 - e)\<close>, a subnormal one is \<open>f / 2 ^ 1074\<close>).
\<close>

record double =
  mantissa :: nat
  scale :: nat

definition isUnitDouble :: "double \<Rightarrow> bool" where
  "isUnitDouble d = (mantissa d < 2 ^ 53 \<and> mantissa d < 2 ^ scale d \<and> scale d \<le> 1074)"

text \<open>
  The environment of a call. \<open>'u\<close> is the type \<^verbatim>\<open>AuthenticatedUser\<close>.
  \<^item> \<open>dateNow\<close> is what \<^verbatim>\<open>Date.now()\<close> returns, in milliseconds;
  \<^item> \<open>fetch\<close> gives the outcome of a health request by its URL;
  \<^item> \<open>settleRank\<close> orders the probed ports by the time their probe completes (the probes
    run concurrently and each pushes its descriptor when it completes);
  \<^item> \<open>sources\<close> is the content of the catalog store;
  \<^item> \<open>userCanAccessModelAndSourceSet\<close> and \<open>getSourceInferenceHosts\<close> are the helpers
    imported from \<^verbatim>\<open>./userCanAccess\<close> and \<^verbatim>\<open>./source\<close>; the latter returns
    \<^verbatim>\<open>null\<close> or the host rows of the source, each given by its \<^verbatim>\<open>inferenceHost.hostUrl\<close>;
  \<^item> \<open>mathRandom k\<close> is what the \<open>k\<close>-th call of \<^verbatim>\<open>Math.random()\<close> returns.
\<close>

record 'u env =
  IS_DOCKER_COMPOSE :: bool
  USE_LOCALHOST_INFERENCE :: bool
  dateNow :: int
  fetch :: "string \<Rightarrow> healthResponse"
  settleRank :: "nat \<Rightarrow> nat"
  sources :: "Source list"
  userCanAccessModelAndSourceSet :: "string \<Rightarrow> string \<Rightarrow> 'u option \<Rightarrow> bool \<Rightarrow> bool"
  getSourceInferenceHosts :: "string \<Rightarrow> string \<Rightarrow> 'u option \<Rightarrow> string list option"
  mathRandom :: "nat \<Rightarrow> double"

definition LOCALHOST_INFERENCE_HOST :: "'u env \<Rightarrow> string" where
  "LOCALHOST_INFERENCE_HOST env =
     (if IS_DOCKER_COMPOSE env then ''http://inference:5002'' else ''http://127.0.0.1:5002'')"

text \<open>The module-level variables \<^verbatim>\<open>_cachedServers\<close> and \<^verbatim>\<open>_lastDiscovery\<close>.\<close>

record cache =
  cachedServers :: "InferenceServerInfo list"
  lastDiscovery :: int

definition initialCache :: cache where
  "initialCache = \<lparr>cachedServers = [], lastDiscovery = 0\<rparr>"

definition DISCOVERY_CACHE_TTL :: int where
  "DISCOVERY_CACHE_TTL = 30000"

text \<open>The loop \<^verbatim>\<open>for (let port = 5005; port <= 5020; port++) portsToCheck.push(port)\<close>.\<close>

function pushPorts :: "nat \<Rightarrow> nat list \<Rightarrow> nat list" where
  "pushPorts p acc = (if p \<le> 5020 then pushPorts (p + 1) (acc @ [p]) else acc)"
  by pat_completeness auto
termination
  by (relation "measure (\<lambda>(p, acc). 5021 - p)") auto

declare pushPorts.simps [simp del]

definition portsToCheck :: "nat list" where
  "portsToCheck = pushPorts 5005 [5002]"

definition baseUrl :: "'u env \<Rightarrow> string" where
  "baseUrl env = (if IS_DOCKER_COMPOSE env then ''http://inference'' else ''http://127.0.0.1'')"

definition serverUrl :: "'u env \<Rightarrow> nat \<Rightarrow> string" where
  "serverUrl env p = baseUrl env @ '':'' @ decimal p"

definition healthUrl :: "'u env \<Rightarrow> nat \<Rightarrow> string" where
  "healthUrl env p = serverUrl env p @ ''/health''"

text \<open>The descriptors that the callback of one port pushes: one or none.\<close>

definition probe :: "'u env \<Rightarrow> nat \<Rightarrow> InferenceServerInfo list" where
  "probe env p =
     (case fetch env (healthUrl env p) of
        HealthData model_id model \<Rightarrow>
          [\<lparr>port = p, modelId = reportedModelId model_id model,
            url = serverUrl env p, health = True\<rparr>]
      | _ \<Rightarrow> [])"

text \<open>
  The array \<^verbatim>\<open>servers\<close> once \<^verbatim>\<open>Promise.allSettled\<close> has resolved: the descriptors
  are pushed in the order in which the probes complete.
\<close>

definition probeAll :: "'u env \<Rightarrow> InferenceServerInfo list" where
  "probeAll env = concat (map (probe env) (sort_key (settleRank env) portsToCheck))"

text \<open>
  The result is the snapshot returned, the cache after the call and the health requests
  sent, which are sent in the order of \<open>portsToCheck\<close>.
\<close>

definition discoverInferenceServers ::
  "'u env \<Rightarrow> cache \<Rightarrow> InferenceServerInfo list \<times> cache \<times> string list" where
  "discoverInferenceServers env st =
     (let now = dateNow env
      in if now - lastDiscovery st < DISCOVERY_CACHE_TTL \<and> length (cachedServers st) > 0
         then (cachedServers st, st, [])
         else
           let servers = probeAll env
           in (servers, \<lparr>cachedServers = servers, lastDiscovery = now\<rparr>,
               map (healthUrl env) portsToCheck))"

definition getInferenceServerForModel ::
  "'u env \<Rightarrow> cache \<Rightarrow> string \<Rightarrow> string option \<times> cache \<times> string list" where
  "getInferenceServerForModel env st requested =
     (case discoverInferenceServers env st of
        (servers, st', requests) \<Rightarrow> (selectServer servers requested, st', requests))"

text \<open>
  \<^verbatim>\<open>modelId?: string\<close>: \<open>None\<close> is the argument left out; \<^verbatim>\<open>!modelId\<close> also holds of
  the empty string, and \<^verbatim>\<open>dynamicHost || LOCALHOST_INFERENCE_HOST\<close> takes the default
  for \<^verbatim>\<open>null\<close> and for the empty string.
\<close>

definition getDynamicLocalhostInferenceHost ::
  "'u env \<Rightarrow> cache \<Rightarrow> string option \<Rightarrow> string \<times> cache \<times> string list" where
  "getDynamicLocalhostInferenceHost env st requested =
     (case requested of
        None \<Rightarrow> (LOCALHOST_INFERENCE_HOST env, st, [])
      | Some [] \<Rightarrow> (LOCALHOST_INFERENCE_HOST env, st, [])
      | Some (c # cs) \<Rightarrow>
          (case getInferenceServerForModel env st (c # cs) of
             (Some (d # ds), st', requests) \<Rightarrow> (d # ds, st', requests)
           | (_, st', requests) \<Rightarrow> (LOCALHOST_INFERENCE_HOST env, st', requests)))"

definition clearInferenceServerCache :: "cache \<Rightarrow> cache" where
  "clearInferenceServerCache st = \<lparr>cachedServers = [], lastDiscovery = 0\<rparr>"

definition getAllDiscoveredInferenceServers ::
  "'u env \<Rightarrow> cache \<Rightarrow> InferenceServerInfo list \<times> cache \<times> string list" where
  "getAllDiscoveredInferenceServers env st = discoverInferenceServers env st"

subsection \<open>Host selectors\<close>

text \<open>
  What a selector throws: \<^verbatim>\<open>new Error(message)\<close>, or the \<^verbatim>\<open>TypeError\<close> of the runtime
  when a property of \<^verbatim>\<open>undefined\<close> is read. Failures of the store itself are not modelled.
\<close>

datatype error = Error string | TypeError

definition getAllServerHostsForSourceSet :: "'u env \<Rightarrow> string \<Rightarrow> string \<Rightarrow> string list" where
  "getAllServerHostsForSourceSet env requested sourceSetName =
     concat (map inferenceHosts
       (filter (\<lambda>source. sourceModelId source = requested \<and> setName source = sourceSetName)
          (sources env)))"

definition getAllServerHostsForModel :: "'u env \<Rightarrow> string \<Rightarrow> string list" where
  "getAllServerHostsForModel env requested =
     concat (map inferenceHosts
       (filter (\<lambda>source. sourceModelId source = requested) (sources env)))"

text \<open>\<^verbatim>\<open>[...new Set(hosts)]\<close>: each host once, in the order of the first occurrences.\<close>

definition unique :: "string list \<Rightarrow> string list" where
  "unique hosts = foldl (\<lambda>seen h. if h \<in> set seen then seen else seen @ [h]) [] hosts"

text \<open>
  The number of low bits that an integer loses when it is rounded to 53 significant bits:
  the least \<open>s\<close> with \<open>K < 2 ^ (53 + s)\<close>.
\<close>

function shiftCount :: "nat \<Rightarrow> nat" where
  "shiftCount K = (if K < 2 ^ 53 then 0 else Suc (shiftCount (K div 2)))"
  by pat_completeness auto
termination
  by (relation "measure (\<lambda>K. K)") auto

declare shiftCount.simps [simp del]

text \<open>
  Rounding to the nearest integer with 53 significant bits, ties to the even mantissa: the
  rounding of IEEE 754 binary64, on an integer.
\<close>

definition round53 :: "nat \<Rightarrow> nat" where
  "round53 K =
     (let s = shiftCount K; q = K div 2 ^ s; r = K mod 2 ^ s
      in if s = 0 then K
         else if 2 * r < 2 ^ s then q * 2 ^ s
         else if 2 ^ s < 2 * r then (q + 1) * 2 ^ s
         else if even q then q * 2 ^ s
         else (q + 1) * 2 ^ s)"

text \<open>
  \<^verbatim>\<open>Math.floor(Math.random() * n)\<close> for the \<open>k\<close>-th call of \<^verbatim>\<open>Math.random\<close>, in the
  arithmetic of doubles. The length \<open>n\<close> of an array is an integer below \<open>2 ^ 32\<close> and
  exact as a double. The product of \<open>mantissa / 2 ^ scale\<close> and \<open>n\<close> is the double nearest
  to \<open>(mantissa * n) / 2 ^ scale\<close>, which is \<open>round53 (mantissa * n) / 2 ^ scale\<close>: the
  product does not overflow, and when it needs rounding it is at least \<open>2 ^ (53 - scale)\<close>,
  in the normal range. The floor of a double that is not negative is the integer quotient.
\<close>

definition randomIndex :: "'u env \<Rightarrow> nat \<Rightarrow> nat \<Rightarrow> nat" where
  "randomIndex env k n =
     (let d = mathRandom env k in round53 (mantissa d * n) div 2 ^ scale d)"

definition getOneRandomServerHostForSourceSet ::
  "'u env \<Rightarrow> cache \<Rightarrow> string \<Rightarrow> string \<Rightarrow> 'u option \<Rightarrow> string option \<times> cache \<times> string list" where
  "getOneRandomServerHostForSourceSet env st requested sourceSetName user =
     (if \<not> userCanAccessModelAndSourceSet env requested sourceSetName user True
      then (None, st, [])
      else if USE_LOCALHOST_INFERENCE env
      then (case getDynamicLocalhostInferenceHost env st (Some requested) of
              (dynamicHost, st', requests) \<Rightarrow> (Some dynamicHost, st', requests))
      else
        let hosts = getAllServerHostsForSourceSet env requested sourceSetName
        in if length hosts = 0 then (None, st, [])
           else (elementAt hosts (randomIndex env 0 (length hosts)), st, []))"

definition getOneRandomServerHostForSource ::
  "'u env \<Rightarrow> cache \<Rightarrow> string \<Rightarrow> string \<Rightarrow> 'u option \<Rightarrow> (error + string) \<times> cache \<times> string list" where
  "getOneRandomServerHostForSource env st requested sourceId user =
     (if USE_LOCALHOST_INFERENCE env
      then (case getDynamicLocalhostInferenceHost env st (Some requested) of
              (dynamicHost, st', requests) \<Rightarrow> (Inr dynamicHost, st', requests))
      else
        (case getSourceInferenceHosts env requested sourceId user of
           None \<Rightarrow> (Inl (Error ''Source not found.''), st, [])
         | Some hosts \<Rightarrow>
             (case elementAt hosts (randomIndex env 0 (length hosts)) of
                None \<Rightarrow> (Inl TypeError, st, [])
              | Some hostUrl \<Rightarrow> (Inr hostUrl, st, []))))"

definition getOneRandomServerHostForModel ::
  "'u env \<Rightarrow> cache \<Rightarrow> string \<Rightarrow> (error + string option) \<times> cache \<times> string list" where
  "getOneRandomServerHostForModel env st requested =
     (if USE_LOCALHOST_INFERENCE env
      then (case getDynamicLocalhostInferenceHost env st (Some requested) of
              (dynamicHost, st', requests) \<Rightarrow> (Inr (Some dynamicHost), st', requests))
      else
        let hosts = getAllServerHostsForModel env requested
        in if length hosts = 0 then (Inl (Error ''No hosts found.''), st, [])
           else (Inr (elementAt (unique hosts) 0), st, []))"

text \<open>
  The loop \<^verbatim>\<open>while (randomIndex2 === randomIndex) randomIndex2 = Math.floor(Math.random() * hosts.length)\<close>,
  where \<open>k\<close> counts the calls of \<^verbatim>\<open>Math.random\<close> made so far. The loop need not end:
  \<open>None\<close> is the run that draws the first index for ever.
\<close>

partial_function (option) resample :: "'u env \<Rightarrow> nat \<Rightarrow> nat \<Rightarrow> nat \<Rightarrow> nat \<Rightarrow> nat option" where
  "resample env n randomIndex1 k randomIndex2 =
     (if randomIndex2 = randomIndex1
      then resample env n randomIndex1 (Suc k) (randomIndex env k n)
      else Some randomIndex2)"

text \<open>
  The lines that end both dual-host selectors, from the test of \<^verbatim>\<open>hosts.length === 0\<close>
  on: they are the same in \<^verbatim>\<open>getTwoRandomServerHostsForModel\<close> and in
  \<^verbatim>\<open>getTwoRandomServerHostsForSourceSet\<close>.
\<close>

definition pickTwo :: "'u env \<Rightarrow> string list \<Rightarrow> (error + string option list) option" where
  "pickTwo env hosts0 =
     (if length hosts0 = 0 then Some (Inl (Error ''No hosts found.''))
      else
        let hosts = unique hosts0
        in if length hosts < 2 then Some (Inr [elementAt hosts 0, elementAt hosts 0])
           else
             let randomIndex1 = randomIndex env 0 (length hosts)
             in (case resample env (length hosts) randomIndex1 2 (randomIndex env 1 (length hosts)) of
                   None \<Rightarrow> None
                 | Some randomIndex2 \<Rightarrow>
                     Some (Inr [elementAt hosts randomIndex1, elementAt hosts randomIndex2])))"

text \<open>The dual-host selectors: \<open>None\<close> is the call that does not return.\<close>

definition getTwoRandomServerHostsForModel ::
  "'u env \<Rightarrow> cache \<Rightarrow> string \<Rightarrow> ((error + string option list) \<times> cache \<times> string list) option" where
  "getTwoRandomServerHostsForModel env st requested =
     (if USE_LOCALHOST_INFERENCE env
      then (case getDynamicLocalhostInferenceHost env st (Some requested) of
              (dynamicHost, st', requests) \<Rightarrow>
                Some (Inr [Some dynamicHost, Some dynamicHost], st', requests))
      else map_option (\<lambda>r. (r, st, [])) (pickTwo env (getAllServerHostsForModel env requested)))"

definition getTwoRandomServerHostsForSourceSet ::
  "'u env \<Rightarrow> cache \<Rightarrow> string \<Rightarrow> string \<Rightarrow> 'u option \<Rightarrow>
     ((error + string option list) \<times> cache \<times> string list) option" where
  "getTwoRandomServerHostsForSourceSet env st requested sourceSetName user =
     (if USE_LOCALHOST_INFERENCE env
      then (case getDynamicLocalhostInferenceHost env st (Some requested) of
              (dynamicHost, st', requests) \<Rightarrow>
                Some (Inr [Some dynamicHost, Some dynamicHost], st', requests))
      else if \<not> userCanAccessModelAndSourceSet env requested sourceSetName user True
      then Some (Inl (Error ''Source set not found.''), st, [])
      else map_option (\<lambda>r. (r, st, []))
             (pickTwo env (getAllServerHostsForSourceSet env requested sourceSetName)))"

subsection \<open>Admin route\<close>

text \<open>
  The body of a \<^verbatim>\<open>POST\<close>: either \<^verbatim>\<open>request.json()\<close> rejects or yields \<^verbatim>\<open>null\<close>, so
  that the \<^verbatim>\<open>try\<close> block throws, or it yields a value whose property \<^verbatim>\<open>action\<close> is
  read: absent (\<open>None\<close>), a string, or some other JSON value. The handlers are modelled
  as \<^verbatim>\<open>withAuthedAdminUser\<close> calls them, for a request that has passed its check.
\<close>

datatype jsonValue = JString string | JNotAString

datatype requestBody = NoObject | Body "jsonValue option"

datatype response =
    Refreshed "InferenceServerInfo list" nat
  | Failed nat string

text \<open>
  \<open>Refreshed servers total\<close> is the response of status 200 with \<^verbatim>\<open>success: true\<close>, the
  message \<^verbatim>\<open>'Inference server cache refreshed'\<close>, \<^verbatim>\<open>servers\<close> and \<^verbatim>\<open>total\<close>;
  \<open>Failed status message\<close> is the response \<^verbatim>\<open>{ error: message }\<close> with that status.
\<close>

definition POST :: "'u env \<Rightarrow> cache \<Rightarrow> requestBody \<Rightarrow> response \<times> cache \<times> string list" where
  "POST env st body =
     (case body of
        NoObject \<Rightarrow> (Failed 500 ''Failed to refresh inference servers'', st, [])
      | Body action \<Rightarrow>
          if action = Some (JString ''refresh'')
          then (case getAllDiscoveredInferenceServers env (clearInferenceServerCache st) of
                  (servers, st', requests) \<Rightarrow> (Refreshed servers (length servers), st', requests))
          else (Failed 400 ''Invalid action. Supported actions: refresh'', st, []))"

subsection \<open>Example environments\<close>

text \<open>
  A process in dynamic mode outside Docker, at a given time and with given answers of the
  ports, whose probes complete in the order of the ports; its store is empty.
\<close>

definition dynamicEnv :: "int \<Rightarrow> (string \<Rightarrow> healthResponse) \<Rightarrow> unit env" where
  "dynamicEnv t answers =
     \<lparr>IS_DOCKER_COMPOSE = False, USE_LOCALHOST_INFERENCE = True, dateNow = t,
      fetch = answers, settleRank = (\<lambda>p. p), sources = [],
      userCanAccessModelAndSourceSet = (\<lambda>m s u b. False),
      getSourceInferenceHosts = (\<lambda>m s u. None),
      mathRandom = (\<lambda>k. \<lparr>mantissa = 0, scale = 0\<rparr>)\<rparr>"

text \<open>No server is running.\<close>

definition allDown :: "string \<Rightarrow> healthResponse" where
  "allDown u = Rejected"

text \<open>One server is running, on port 5002, and reports the model \<^verbatim>\<open>gpt2-small\<close>.\<close>

definition oneServer :: "string \<Rightarrow> healthResponse" where
  "oneServer u =
     (if u = ''http://127.0.0.1:5002/health'' then HealthData (Some ''gpt2-small'') None
      else Rejected)"

text \<open>
  The two servers of the request flow in \<^verbatim>\<open>docs/MULTIPLE_INFERENCE_SERVERS.md\<close>:
  \<^verbatim>\<open>gpt2-small\<close> on port 5002 and \<^verbatim>\<open>gemma-2-2b-it\<close> on port 5005.
\<close>

definition twoServers :: "string \<Rightarrow> healthResponse" where
  "twoServers u =
     (if u = ''http://127.0.0.1:5002/health'' then HealthData (Some ''gpt2-small'') None
      else if u = ''http://127.0.0.1:5005/health'' then HealthData (Some ''gemma-2-2b-it'') None
      else Rejected)"

text \<open>
  Two servers whose names differ by a size suffix only: \<^verbatim>\<open>gpt2\<close> on port 5002 and
  \<^verbatim>\<open>gpt2-small\<close> on port 5005.
\<close>

definition sizeVariants :: "string \<Rightarrow> healthResponse" where
  "sizeVariants u =
     (if u = ''http://127.0.0.1:5002/health'' then HealthData (Some ''gpt2'') None
      else if u = ''http://127.0.0.1:5005/health'' then HealthData (Some ''gpt2-small'') None
      else Rejected)"

text \<open>
  A process in static mode: the store holds the given sources, the access check answers
  \<open>granted\<close>, the lookup of a source by its id answers \<open>sourceHosts\<close>, and
  \<^verbatim>\<open>Math.random\<close> returns the given draws.
\<close>

definition staticEnv ::
  "Source list \<Rightarrow> bool \<Rightarrow> string list option \<Rightarrow> (nat \<Rightarrow> double) \<Rightarrow> unit env" where
  "staticEnv catalog granted sourceHosts draws =
     \<lparr>IS_DOCKER_COMPOSE = False, USE_LOCALHOST_INFERENCE = False, dateNow = 1000000,
      fetch = allDown, settleRank = (\<lambda>p. p), sources = catalog,
      userCanAccessModelAndSourceSet = (\<lambda>m s u b. granted),
      getSourceInferenceHosts = (\<lambda>m s u. sourceHosts), mathRandom = draws\<rparr>"

text \<open>
  Two sources of the set \<^verbatim>\<open>res-jb\<close> of \<^verbatim>\<open>gpt2-small\<close>; one host serves both.
\<close>

definition exampleCatalog :: "Source list" where
  "exampleCatalog =
     [\<lparr>sourceModelId = ''gpt2-small'', setName = ''res-jb'',
       inferenceHosts = [''http://10.0.0.1:5002'', ''http://10.0.0.2:5002'']\<rparr>,
      \<lparr>sourceModelId = ''gpt2-small'', setName = ''res-jb'',
       inferenceHosts = [''http://10.0.0.1:5002'']\<rparr>]"

text \<open>Draws 0, 1/4 and then 1/2 for ever: of two indices, 0, 0 again and then 1.\<close>

definition exampleDraws :: "nat \<Rightarrow> double" where
  "exampleDraws k =
     (if k = 0 then \<lparr>mantissa = 0, scale = 0\<rparr>
      else if k = 1 then \<lparr>mantissa = 1, scale = 2\<rparr>
      else \<lparr>mantissa = 1, scale = 1\<rparr>)"

text \<open>
  The double \<^verbatim>\<open>0.6666666666666666\<close>, which is \<open>6004799503160661 / 2 ^ 53\<close>, the double
  next below 2/3. Its product with 3 is \<open>2 - 2 ^ -53\<close>, half way between the doubles
  \<open>2 - 2 ^ -52\<close> and 2, and is rounded to 2.
\<close>

definition twoThirds :: double where
  "twoThirds = \<lparr>mantissa = 6004799503160661, scale = 53\<rparr>"


text \<open>A source of \<^verbatim>\<open>gpt2-small\<close> with three hosts.\<close>

definition threeHosts :: "string list" where
  "threeHosts = [''http://10.0.0.1:5002'', ''http://10.0.0.2:5002'', ''http://10.0.0.3:5002'']"


section \<open>Properties\<close>

subsection \<open>The probe scan\<close>

lemma portsToCheck_eq:
  "portsToCheck =
     [5002, 5005, 5006, 5007, 5008, 5009, 5010, 5011, 5012, 5013, 5014, 5015, 5016, 5017,
      5018, 5019, 5020]"
  by (simp add: portsToCheck_def pushPorts.simps)

lemma set_portsToCheck: "set portsToCheck = {5002} \<union> {5005..5020}"
proof -
  have "{5005..5020::nat} = set [5005..<Suc 5020]"
    by (rule atLeastAtMost_upt)
  also have "[5005..<Suc 5020] = tl portsToCheck"
    by (simp add: portsToCheck_eq upt_rec)
  finally have "{5005..5020::nat} = set (tl portsToCheck)" .
  then show ?thesis
    by (auto simp add: portsToCheck_eq)
qed

lemma decimal_ports:
  "map decimal portsToCheck =
     [''5002'', ''5005'', ''5006'', ''5007'', ''5008'', ''5009'', ''5010'', ''5011'', ''5012'',
      ''5013'', ''5014'', ''5015'', ''5016'', ''5017'', ''5018'', ''5019'', ''5020'']"
  by (simp add: portsToCheck_eq decimal.simps decimalDigits_def)

lemma decimal_reserved: "decimal 5003 = ''5003''" "decimal 5004 = ''5004''"
  by (simp_all add: decimal.simps decimalDigits_def)

lemma reserved_not_requested:
  "healthUrl env 5003 \<notin> set (map (healthUrl env) portsToCheck)"
  "healthUrl env 5004 \<notin> set (map (healthUrl env) portsToCheck)"
proof -
  have m: "map (healthUrl env) portsToCheck =
      map (\<lambda>d. baseUrl env @ '':'' @ d @ ''/health'') (map decimal portsToCheck)"
    by (simp add: healthUrl_def serverUrl_def)
  show "healthUrl env 5003 \<notin> set (map (healthUrl env) portsToCheck)"
    unfolding m decimal_ports by (simp add: healthUrl_def serverUrl_def decimal_reserved)
  show "healthUrl env 5004 \<notin> set (map (healthUrl env) portsToCheck)"
    unfolding m decimal_ports by (simp add: healthUrl_def serverUrl_def decimal_reserved)
qed

lemma requests_of_discover:
  "snd (snd (discoverInferenceServers env st)) =
     (if dateNow env - lastDiscovery st < DISCOVERY_CACHE_TTL \<and> cachedServers st \<noteq> []
      then [] else map (healthUrl env) portsToCheck)"
  by (simp add: discoverInferenceServers_def Let_def)

text \<open>
  C10. A call of \<open>discoverInferenceServers\<close> that probes sends its health requests to the
  ports of \<open>portsToCheck\<close>, one each and in that order, and these ports are 5002 and 5005 to
  5020; a call served from the cache sends none. In neither case is a request sent to port
  5003 or to port 5004.
\<close>

theorem probe_scan_ports:
  "set portsToCheck = {5002} \<union> {5005..5020}
   \<and> snd (snd (discoverInferenceServers env st)) =
       (if dateNow env - lastDiscovery st < DISCOVERY_CACHE_TTL \<and> cachedServers st \<noteq> []
        then [] else map (healthUrl env) portsToCheck)
   \<and> healthUrl env 5003 \<notin> set (snd (snd (discoverInferenceServers env st)))
   \<and> healthUrl env 5004 \<notin> set (snd (snd (discoverInferenceServers env st)))"
  by (simp add: set_portsToCheck requests_of_discover reserved_not_requested del: set_map)

lemma healthUrls_local:
  "\<not> IS_DOCKER_COMPOSE env \<Longrightarrow>
   map (healthUrl env) portsToCheck =
     [''http://127.0.0.1:5002/health'', ''http://127.0.0.1:5005/health'',
      ''http://127.0.0.1:5006/health'', ''http://127.0.0.1:5007/health'',
      ''http://127.0.0.1:5008/health'', ''http://127.0.0.1:5009/health'',
      ''http://127.0.0.1:5010/health'', ''http://127.0.0.1:5011/health'',
      ''http://127.0.0.1:5012/health'', ''http://127.0.0.1:5013/health'',
      ''http://127.0.0.1:5014/health'', ''http://127.0.0.1:5015/health'',
      ''http://127.0.0.1:5016/health'', ''http://127.0.0.1:5017/health'',
      ''http://127.0.0.1:5018/health'', ''http://127.0.0.1:5019/health'',
      ''http://127.0.0.1:5020/health'']"
proof -
  assume "\<not> IS_DOCKER_COMPOSE env"
  then have "map (healthUrl env) portsToCheck =
      map (\<lambda>d. ''http://127.0.0.1:'' @ d @ ''/health'') (map decimal portsToCheck)"
    by (simp add: healthUrl_def serverUrl_def baseUrl_def)
  then show ?thesis
    unfolding decimal_ports by simp
qed

theorem probe_scan_ports_witness:
  "snd (snd (discoverInferenceServers (dynamicEnv 1000000 allDown) initialCache)) =
     [''http://127.0.0.1:5002/health'', ''http://127.0.0.1:5005/health'',
      ''http://127.0.0.1:5006/health'', ''http://127.0.0.1:5007/health'',
      ''http://127.0.0.1:5008/health'', ''http://127.0.0.1:5009/health'',
      ''http://127.0.0.1:5010/health'', ''http://127.0.0.1:5011/health'',
      ''http://127.0.0.1:5012/health'', ''http://127.0.0.1:5013/health'',
      ''http://127.0.0.1:5014/health'', ''http://127.0.0.1:5015/health'',
      ''http://127.0.0.1:5016/health'', ''http://127.0.0.1:5017/health'',
      ''http://127.0.0.1:5018/health'', ''http://127.0.0.1:5019/health'',
      ''http://127.0.0.1:5020/health'']"
proof -
  have "\<not> IS_DOCKER_COMPOSE (dynamicEnv 1000000 allDown)"
    by (simp add: dynamicEnv_def)
  then show ?thesis
    using probe_scan_ports [of "dynamicEnv 1000000 allDown" initialCache]
    by (simp add: healthUrls_local initialCache_def)
qed

lemma dynamicEnv_fields:
  "IS_DOCKER_COMPOSE (dynamicEnv t answers) = False"
  "USE_LOCALHOST_INFERENCE (dynamicEnv t answers) = True"
  "dateNow (dynamicEnv t answers) = t"
  "fetch (dynamicEnv t answers) = answers"
  by (simp_all add: dynamicEnv_def)

lemma probe_allDown: "probe (dynamicEnv t allDown) p = []"
  by (simp add: probe_def dynamicEnv_def allDown_def)

lemma probeAll_allDown: "probeAll (dynamicEnv t allDown) = []"
  by (simp add: probeAll_def probe_allDown)

lemma sort_ports_by_port: "sort_key (\<lambda>p. p) portsToCheck = portsToCheck"
  by (simp add: portsToCheck_eq)

lemmas eval_probe =
  portsToCheck_eq probe_def healthUrl_def serverUrl_def baseUrl_def dynamicEnv_def
  decimal.simps decimalDigits_def reportedModelId_def

lemma probeAll_oneServer:
  "probeAll (dynamicEnv t oneServer) =
     [\<lparr>port = 5002, modelId = ''gpt2-small'', url = ''http://127.0.0.1:5002'', health = True\<rparr>]"
proof -
  have "probeAll (dynamicEnv t oneServer) = concat (map (probe (dynamicEnv t oneServer)) portsToCheck)"
    by (simp add: probeAll_def dynamicEnv_def sort_ports_by_port)
  also have "\<dots> = [\<lparr>port = 5002, modelId = ''gpt2-small'', url = ''http://127.0.0.1:5002'', health = True\<rparr>]"
    by (simp add: eval_probe oneServer_def)
  finally show ?thesis .
qed

lemma probeAll_twoServers:
  "probeAll (dynamicEnv t twoServers) =
     [\<lparr>port = 5002, modelId = ''gpt2-small'', url = ''http://127.0.0.1:5002'', health = True\<rparr>,
      \<lparr>port = 5005, modelId = ''gemma-2-2b-it'', url = ''http://127.0.0.1:5005'', health = True\<rparr>]"
proof -
  have "probeAll (dynamicEnv t twoServers) = concat (map (probe (dynamicEnv t twoServers)) portsToCheck)"
    by (simp add: probeAll_def dynamicEnv_def sort_ports_by_port)
  also have "\<dots> = [\<lparr>port = 5002, modelId = ''gpt2-small'', url = ''http://127.0.0.1:5002'', health = True\<rparr>,
      \<lparr>port = 5005, modelId = ''gemma-2-2b-it'', url = ''http://127.0.0.1:5005'', health = True\<rparr>]"
    by (simp add: eval_probe twoServers_def)
  finally show ?thesis .
qed

subsection \<open>The discovery cache\<close>

lemma discover_hit:
  "dateNow env - lastDiscovery st < DISCOVERY_CACHE_TTL \<Longrightarrow> cachedServers st \<noteq> [] \<Longrightarrow>
   discoverInferenceServers env st = (cachedServers st, st, [])"
  by (simp add: discoverInferenceServers_def)

lemma discover_miss:
  "\<not> dateNow env - lastDiscovery st < DISCOVERY_CACHE_TTL \<or> cachedServers st = [] \<Longrightarrow>
   discoverInferenceServers env st =
     (probeAll env, \<lparr>cachedServers = probeAll env, lastDiscovery = dateNow env\<rparr>,
      map (healthUrl env) portsToCheck)"
  by (auto simp add: discoverInferenceServers_def Let_def)

lemma discover_allDown_initial:
  "discoverInferenceServers (dynamicEnv t allDown) initialCache =
     ([], \<lparr>cachedServers = [], lastDiscovery = t\<rparr>,
      map (healthUrl (dynamicEnv t allDown)) portsToCheck)"
  by (simp add: discover_miss initialCache_def probeAll_allDown) (simp add: dynamicEnv_def)

text \<open>
  C1, as stated, fails. A first call at time 1000000 finds no server and caches the empty
  snapshot. A second call one millisecond later, well within the 30 seconds, sends the 17
  health requests again and returns the server that has come up meanwhile, not the cached
  empty snapshot.
\<close>

theorem empty_snapshot_is_probed_again:
  "fst (discoverInferenceServers (dynamicEnv 1000000 allDown) initialCache) = []
   \<and> dateNow (dynamicEnv 1000001 oneServer)
       - lastDiscovery (fst (snd (discoverInferenceServers (dynamicEnv 1000000 allDown) initialCache)))
       < DISCOVERY_CACHE_TTL
   \<and> snd (snd (discoverInferenceServers (dynamicEnv 1000001 oneServer)
         (fst (snd (discoverInferenceServers (dynamicEnv 1000000 allDown) initialCache)))))
       = map (healthUrl (dynamicEnv 1000001 oneServer)) portsToCheck
   \<and> fst (discoverInferenceServers (dynamicEnv 1000001 oneServer)
         (fst (snd (discoverInferenceServers (dynamicEnv 1000000 allDown) initialCache))))
       \<noteq> cachedServers (fst (snd (discoverInferenceServers (dynamicEnv 1000000 allDown) initialCache)))"
  by (simp add: discover_allDown_initial discover_miss probeAll_oneServer DISCOVERY_CACHE_TTL_def)
    (simp add: dynamicEnv_def)

text \<open>
  C1, amended. A call made less than 30 seconds after the last probing, while the cached
  snapshot is not empty, returns the cached snapshot, leaves the cache as it is and sends
  no health request. While the cached snapshot is empty, every call probes again, whatever
  the time elapsed, and replaces the cache by what it finds; so does a call made 30 seconds
  or more after the last probing.
\<close>

theorem cached_snapshot_served_iff_nonempty:
  "(dateNow env - lastDiscovery st < DISCOVERY_CACHE_TTL \<and> cachedServers st \<noteq> [] \<longrightarrow>
      discoverInferenceServers env st = (cachedServers st, st, []))
   \<and> (cachedServers st = [] \<longrightarrow>
      discoverInferenceServers env st =
        (probeAll env, \<lparr>cachedServers = probeAll env, lastDiscovery = dateNow env\<rparr>,
         map (healthUrl env) portsToCheck))
   \<and> (\<not> dateNow env - lastDiscovery st < DISCOVERY_CACHE_TTL \<longrightarrow>
      discoverInferenceServers env st =
        (probeAll env, \<lparr>cachedServers = probeAll env, lastDiscovery = dateNow env\<rparr>,
         map (healthUrl env) portsToCheck))"
  by (simp add: discover_hit discover_miss)

theorem cached_snapshot_served_iff_nonempty_witness:
  "discoverInferenceServers (dynamicEnv 1000001 allDown)
     \<lparr>cachedServers = probeAll (dynamicEnv 1000000 oneServer), lastDiscovery = 1000000\<rparr>
     = ([\<lparr>port = 5002, modelId = ''gpt2-small'', url = ''http://127.0.0.1:5002'', health = True\<rparr>],
        \<lparr>cachedServers = probeAll (dynamicEnv 1000000 oneServer), lastDiscovery = 1000000\<rparr>, [])
   \<and> fst (discoverInferenceServers (dynamicEnv 1000001 oneServer)
        \<lparr>cachedServers = [], lastDiscovery = 1000000\<rparr>)
     = [\<lparr>port = 5002, modelId = ''gpt2-small'', url = ''http://127.0.0.1:5002'', health = True\<rparr>]
   \<and> fst (snd (discoverInferenceServers (dynamicEnv 1030000 allDown)
        \<lparr>cachedServers = probeAll (dynamicEnv 1000000 oneServer), lastDiscovery = 1000000\<rparr>))
     = \<lparr>cachedServers = [], lastDiscovery = 1030000\<rparr>"
  using cached_snapshot_served_iff_nonempty
      [of "dynamicEnv 1000001 allDown"
          "\<lparr>cachedServers = probeAll (dynamicEnv 1000000 oneServer), lastDiscovery = 1000000\<rparr>"]
    cached_snapshot_served_iff_nonempty
      [of "dynamicEnv 1000001 oneServer" "\<lparr>cachedServers = [], lastDiscovery = 1000000\<rparr>"]
    cached_snapshot_served_iff_nonempty
      [of "dynamicEnv 1030000 allDown"
          "\<lparr>cachedServers = probeAll (dynamicEnv 1000000 oneServer), lastDiscovery = 1000000\<rparr>"]
  by (simp add: probeAll_oneServer probeAll_allDown DISCOVERY_CACHE_TTL_def dynamicEnv_fields)

subsection \<open>The admin route\<close>

lemma discover_cleared:
  "discoverInferenceServers env (clearInferenceServerCache st) =
     (probeAll env, \<lparr>cachedServers = probeAll env, lastDiscovery = dateNow env\<rparr>,
      map (healthUrl env) portsToCheck)"
  by (simp add: discover_miss clearInferenceServerCache_def)

text \<open>
  C9. A \<open>POST\<close> whose action is \<^verbatim>\<open>"refresh"\<close> clears the cache (empty snapshot, time 0)
  and then discovers: whatever the cache held, all ports are probed, the response carries
  the descriptors just found and their number, and the cache holds them with the time of the
  call. A \<open>POST\<close> with any other action, or with none, is answered with status 400, leaves
  the cache as it was and sends no health request.
\<close>

theorem post_refresh_or_client_error:
  "POST env st (Body (Some (JString ''refresh''))) =
     (case getAllDiscoveredInferenceServers env (clearInferenceServerCache st) of
        (servers, st', requests) \<Rightarrow> (Refreshed servers (length servers), st', requests))
   \<and> clearInferenceServerCache st = \<lparr>cachedServers = [], lastDiscovery = 0\<rparr>
   \<and> POST env st (Body (Some (JString ''refresh''))) =
       (Refreshed (probeAll env) (length (probeAll env)),
        \<lparr>cachedServers = probeAll env, lastDiscovery = dateNow env\<rparr>,
        map (healthUrl env) portsToCheck)
   \<and> (action \<noteq> Some (JString ''refresh'') \<longrightarrow>
        POST env st (Body action) =
          (Failed 400 ''Invalid action. Supported actions: refresh'', st, []))"
  by (simp add: POST_def getAllDiscoveredInferenceServers_def discover_cleared)
    (simp add: clearInferenceServerCache_def)

theorem post_refresh_or_client_error_witness:
  "POST (dynamicEnv 1000001 allDown)
     \<lparr>cachedServers = probeAll (dynamicEnv 1000000 oneServer), lastDiscovery = 1000000\<rparr>
     (Body (Some (JString ''refresh'')))
     = (Refreshed [] 0, \<lparr>cachedServers = [], lastDiscovery = 1000001\<rparr>,
        map (healthUrl (dynamicEnv 1000001 allDown)) portsToCheck)
   \<and> POST (dynamicEnv 1000001 allDown)
     \<lparr>cachedServers = probeAll (dynamicEnv 1000000 oneServer), lastDiscovery = 1000000\<rparr>
     (Body (Some (JString ''bogus'')))
     = (Failed 400 ''Invalid action. Supported actions: refresh'',
        \<lparr>cachedServers = probeAll (dynamicEnv 1000000 oneServer), lastDiscovery = 1000000\<rparr>, [])"
  using post_refresh_or_client_error
      [THEN conjunct2, THEN conjunct2, of "dynamicEnv 1000001 allDown"
          "\<lparr>cachedServers = probeAll (dynamicEnv 1000000 oneServer), lastDiscovery = 1000000\<rparr>"
          "Some (JString ''bogus'')"]
  by (simp add: probeAll_allDown dynamicEnv_fields)

subsection \<open>The matcher\<close>

lemma find_SomeD: "find P xs = Some x \<Longrightarrow> x \<in> set xs \<and> P x"
  by (induction xs) (auto split: if_splits)

lemma selectServer_None_iff:
  "selectServer servers requested = None \<longleftrightarrow> (\<forall>s \<in> set servers. \<not> health s)"
proof -
  have "selectServer servers requested = None \<longleftrightarrow> find health servers = None"
    by (auto simp add: selectServer_def find_None_iff split: option.splits dest: find_SomeD)
  then show ?thesis
    by (auto simp add: find_None_iff)
qed

lemma getInferenceServerForModel_eq:
  "getInferenceServerForModel env st requested =
     (selectServer (fst (discoverInferenceServers env st)) requested,
      snd (discoverInferenceServers env st))"
  by (simp add: getInferenceServerForModel_def split: prod.splits)

lemma getDynamic_default:
  "fst (getInferenceServerForModel env st requested) = None \<Longrightarrow>
   getDynamicLocalhostInferenceHost env st (Some requested) =
     (LOCALHOST_INFERENCE_HOST env,
      if requested = [] then (st, []) else snd (discoverInferenceServers env st))"
  by (cases requested)
    (auto simp add: getDynamicLocalhostInferenceHost_def getInferenceServerForModel_eq
      split: prod.splits option.splits list.splits)

subsection \<open>Normalization\<close>

lemma replaceAll_no_match: "\<not> hasMatch pat s \<Longrightarrow> replaceAll pat rep s = s"
  by (induction s) auto

lemma take_all_length: "take (length p) s = p \<Longrightarrow> length p \<le> length s"
proof -
  assume "take (length p) s = p"
  then have "length (take (length p) s) = length p" by simp
  then show ?thesis by (simp add: min_def split: if_splits)
qed

lemma set_replaceAll: "set (replaceAll pat rep s) \<subseteq> set s \<union> set rep"
proof (induction pat rep s rule: replaceAll.induct)
  case (1 pat rep)
  then show ?case by simp
next
  case (2 pat rep c cs)
  show ?case
  proof (cases "pat \<noteq> [] \<and> take (length pat) (c # cs) = pat")
    case True
    with 2 have "set (replaceAll pat rep (drop (length pat) (c # cs)))
        \<subseteq> set (drop (length pat) (c # cs)) \<union> set rep"
      by simp
    moreover have "set (drop (length pat) (c # cs)) \<subseteq> set (c # cs)"
      by (rule set_drop_subset)
    ultimately show ?thesis
      using True by auto
  next
    case False
    with 2 show ?thesis by auto
  qed
qed

lemma length_replaceAll_le:
  "length rep \<le> length pat \<Longrightarrow> length (replaceAll pat rep s) \<le> length s"
proof (induction pat rep s rule: replaceAll.induct)
  case (1 pat rep)
  then show ?case by simp
next
  case (2 pat rep c cs)
  show ?case
  proof (cases "pat \<noteq> [] \<and> take (length pat) (c # cs) = pat")
    case True
    then have "take (length pat) (c # cs) = pat"
      by simp
    then have "length pat \<le> length (c # cs)"
      by (rule take_all_length)
    moreover from 2 True
    have "length (replaceAll pat rep (drop (length pat) (c # cs)))
        \<le> length (c # cs) - length pat"
      by simp
    ultimately show ?thesis
      using True 2(3) by simp
  next
    case False
    with 2 show ?thesis by auto
  qed
qed

lemma length_replaceAll_less:
  "length rep < length pat \<Longrightarrow> hasMatch pat s \<Longrightarrow> length (replaceAll pat rep s) < length s"
proof (induction pat rep s rule: replaceAll.induct)
  case (1 pat rep)
  then show ?case by simp
next
  case (2 pat rep c cs)
  from 2(3) have ne: "pat \<noteq> []" by auto
  show ?case
  proof (cases "take (length pat) (c # cs) = pat")
    case True
    then have "take (length pat) (c # cs) = pat"
      by simp
    then have "length pat \<le> length (c # cs)"
      by (rule take_all_length)
    moreover have "length (replaceAll pat rep (drop (length pat) (c # cs)))
        \<le> length (c # cs) - length pat"
      using length_replaceAll_le [of rep pat "drop (length pat) (c # cs)"] 2(3) by simp
    ultimately show ?thesis
      using True ne 2(3) by simp
  next
    case False
    with 2 ne show ?thesis by auto
  qed
qed

lemma lower_not_upper: "isLowerAlnum c \<Longrightarrow> c \<notin> set upperCase"
  by (auto simp add: isLowerAlnum_def lowerCase_def upperCase_def decimalDigits_def)

lemma toLowerChar_lower: "isLowerAlnum c \<Longrightarrow> toLowerChar c = c"
proof -
  assume "isLowerAlnum c"
  then have "c \<notin> set upperCase"
    by (rule lower_not_upper)
  then have "c \<notin> fst ` set (zip upperCase lowerCase)"
    by (metis in_set_zipE imageE prod.collapse prod.sel(1) fst_conv)
  then have "map_of (zip upperCase lowerCase) c = None"
    by (rule iffD2 [OF map_of_eq_None_iff])
  then show ?thesis
    by (simp add: toLowerChar_def)
qed

lemma isLowerAlnum_rep: "\<forall>c \<in> set ''it''. isLowerAlnum c"
  by (simp add: isLowerAlnum_def lowerCase_def)

lemma replaceAll_all:
  assumes "\<forall>c \<in> set s. P c" and "\<forall>c \<in> set rep. P c"
  shows "\<forall>c \<in> set (replaceAll pat rep s). P c"
proof
  fix c
  assume "c \<in> set (replaceAll pat rep s)"
  then have "c \<in> set s \<union> set rep"
    using set_replaceAll [of pat rep s] by (rule rev_subsetD)
  with assms show "P c"
    by auto
qed

lemma isLowerAlnum_empty: "\<forall>c \<in> set ''''. isLowerAlnum c"
  by simp

lemma normalized_all: "\<forall>c \<in> set (normalizeModelName x). isLowerAlnum c"
proof -
  have "\<forall>c \<in> set (filter isLowerAlnum (toLowerCase x)). isLowerAlnum c"
    by simp
  then show ?thesis
    unfolding normalizeModelName_def
    by (intro replaceAll_all isLowerAlnum_rep isLowerAlnum_empty)
qed

lemma filter_lower_normalized:
  "filter isLowerAlnum (toLowerCase (normalizeModelName x)) = normalizeModelName x"
proof -
  have "toLowerCase (normalizeModelName x) = normalizeModelName x"
    unfolding toLowerCase_def
    by (rule map_idI) (simp add: normalized_all toLowerChar_lower)
  then show ?thesis
    by (simp add: normalized_all)
qed

text \<open>
  Text that \<open>replaceAll\<close> leaves in front of its result, and that has no \<^verbatim>\<open>i\<close>, was in
  front of the argument, when the replacement begins with \<^verbatim>\<open>i\<close>.
\<close>

lemma replaceAll_skip:
  "\<not> (pat \<noteq> [] \<and> take (length pat) (c # cs) = pat) \<Longrightarrow>
   replaceAll pat rep (c # cs) = c # replaceAll pat rep cs"
  by auto

lemma replaceAll_front:
  assumes "CHR ''i'' \<notin> set w"
    and "take (length w) (replaceAll pat (CHR ''i'' # r) s) = w"
  shows "take (length w) s = w"
  using assms
proof (induction w arbitrary: s)
  case Nil
  then show ?case by simp
next
  case (Cons x w)
  from Cons.prems(1) have x: "x \<noteq> CHR ''i''" and w: "CHR ''i'' \<notin> set w"
    by auto
  show ?case
  proof (cases s)
    case Nil
    with Cons.prems show ?thesis by simp
  next
    case s: (Cons c cs)
    show ?thesis
    proof (cases "pat \<noteq> [] \<and> take (length pat) (c # cs) = pat")
      case True
      then have "replaceAll pat (CHR ''i'' # r) (c # cs) =
          CHR ''i'' # r @ replaceAll pat (CHR ''i'' # r) (drop (length pat) (c # cs))"
        by simp
      with Cons.prems(2) s x show ?thesis
        by simp
    next
      case False
      then have "replaceAll pat (CHR ''i'' # r) (c # cs) = c # replaceAll pat (CHR ''i'' # r) cs"
        by (rule replaceAll_skip)
      with Cons.prems(2) s
      have "c = x" and "take (length w) (replaceAll pat (CHR ''i'' # r) cs) = w"
        by simp_all
      with w Cons.IH have "take (length w) cs = w"
        by blast
      with \<open>c = x\<close> s show ?thesis by simp
    qed
  qed
qed

text \<open>
  Replacing a pattern \<^verbatim>\<open>i\<close>\<open>q\<close> by \<^verbatim>\<open>it\<close> leaves no match of the pattern, when \<open>q\<close> has
  no \<^verbatim>\<open>i\<close> and does not begin with \<^verbatim>\<open>t\<close>.
\<close>

lemma replaceAll_it_no_match:
  assumes q: "CHR ''i'' \<notin> set q" "q \<noteq> []" "hd q \<noteq> CHR ''t''"
  shows "\<not> hasMatch (CHR ''i'' # q) (replaceAll (CHR ''i'' # q) ''it'' s)"
proof (induction "CHR ''i'' # q" "''it''" s rule: replaceAll.induct)
  case 1
  then show ?case by simp
next
  case (2 c cs)
  let ?pat = "CHR ''i'' # q"
  show ?case
  proof (cases "take (length ?pat) (c # cs) = ?pat")
    case True
    let ?R = "replaceAll ?pat ''it'' (drop (length ?pat) (c # cs))"
    from True have eq: "replaceAll ?pat ''it'' (c # cs) = CHR ''i'' # CHR ''t'' # ?R"
      by simp
    from 2 True have ih: "\<not> hasMatch ?pat ?R"
      by simp
    from q obtain y ys where "q = y # ys" "y \<noteq> CHR ''t''"
      by (cases q) auto
    then have "take (length ?pat) (CHR ''i'' # CHR ''t'' # ?R) \<noteq> ?pat"
      and "take (length ?pat) (CHR ''t'' # ?R) \<noteq> ?pat"
      by auto
    with ih show ?thesis
      unfolding eq by (simp only: hasMatch.simps) simp
  next
    case False
    let ?R = "replaceAll ?pat ''it'' cs"
    from False have eq: "replaceAll ?pat ''it'' (c # cs) = c # ?R"
      by (intro replaceAll_skip) blast
    from 2 False have ih: "\<not> hasMatch ?pat ?R"
      by simp
    have "take (length ?pat) (c # ?R) \<noteq> ?pat"
    proof
      assume "take (length ?pat) (c # ?R) = ?pat"
      then have c: "c = CHR ''i''" and "take (length q) ?R = q"
        by simp_all
      with q(1) have "take (length q) cs = q"
        using replaceAll_front [of q ?pat "''t''" cs] by simp
      with c have "take (length ?pat) (c # cs) = ?pat"
        by simp
      with False show False by simp
    qed
    with ih show ?thesis
      unfolding eq by (simp only: hasMatch.simps) simp
  qed
qed

lemma no_instruct_left: "\<not> hasMatch ''instruct'' (replaceAll ''instruct'' ''it'' s)"
  by (rule replaceAll_it_no_match) simp_all

lemma instruction_has_instruct: "hasMatch ''instruction'' s \<Longrightarrow> hasMatch ''instruct'' s"
proof (induction s)
  case Nil
  then show ?case by simp
next
  case (Cons c cs)
  show ?case
  proof (cases "take (length ''instruction'') (c # cs) = ''instruction''")
    case True
    then have "take (length ''instruct'') (take (length ''instruction'') (c # cs)) = ''instruct''"
      by simp
    then have "take (length ''instruct'') (c # cs) = ''instruct''"
      by (simp only: take_take) simp
    then show ?thesis
      by simp
  next
    case False
    with Cons show ?thesis by auto
  qed
qed

lemma normalized_no_instruct: "\<not> hasMatch ''instruct'' (normalizeModelName x)"
proof -
  let ?s = "replaceAll ''instruct'' ''it''
       (replaceAll ''large'' ''''
         (replaceAll ''small'' ''''
           (filter isLowerAlnum (toLowerCase x))))"
  have n: "\<not> hasMatch ''instruct'' ?s"
    by (rule no_instruct_left)
  then have "\<not> hasMatch ''instruction'' ?s"
    using instruction_has_instruct by blast
  then have "replaceAll ''instruction'' ''it'' ?s = ?s"
    by (rule replaceAll_no_match)
  with n show ?thesis
    by (simp add: normalizeModelName_def)
qed

text \<open>The normalization never lengthens a name that is already normalized.\<close>

lemma length_normalize_tail:
  "length (replaceAll ''instruction'' ''it'' (replaceAll ''instruct'' ''it'' (replaceAll ''large'' '''' s)))
     \<le> length s"
proof -
  have "length (replaceAll ''instruction'' ''it'' (replaceAll ''instruct'' ''it'' (replaceAll ''large'' '''' s)))
      \<le> length (replaceAll ''instruct'' ''it'' (replaceAll ''large'' '''' s))"
    by (rule length_replaceAll_le) simp
  also have "\<dots> \<le> length (replaceAll ''large'' '''' s)"
    by (rule length_replaceAll_le) simp
  also have "\<dots> \<le> length s"
    by (rule length_replaceAll_le) simp
  finally show ?thesis .
qed

lemma length_normalize_tail2:
  "length (replaceAll ''instruction'' ''it'' (replaceAll ''instruct'' ''it'' s)) \<le> length s"
proof -
  have "length (replaceAll ''instruction'' ''it'' (replaceAll ''instruct'' ''it'' s))
      \<le> length (replaceAll ''instruct'' ''it'' s)"
    by (rule length_replaceAll_le) simp
  also have "\<dots> \<le> length s"
    by (rule length_replaceAll_le) simp
  finally show ?thesis .
qed

lemma normalize_normalized:
  "normalizeModelName (normalizeModelName x) =
     replaceAll ''instruction'' ''it''
       (replaceAll ''instruct'' ''it''
         (replaceAll ''large'' ''''
           (replaceAll ''small'' '''' (normalizeModelName x))))"
  by (subst normalizeModelName_def) (simp only: filter_lower_normalized)

lemma normalize_fixed:
  assumes "\<not> hasMatch ''small'' (normalizeModelName x)"
    and "\<not> hasMatch ''large'' (normalizeModelName x)"
  shows "normalizeModelName (normalizeModelName x) = normalizeModelName x"
proof -
  let ?y = "normalizeModelName x"
  have i: "\<not> hasMatch ''instruct'' ?y"
    by (rule normalized_no_instruct)
  then have "\<not> hasMatch ''instruction'' ?y"
    using instruction_has_instruct by blast
  then have 4: "replaceAll ''instruction'' ''it'' ?y = ?y"
    by (rule replaceAll_no_match)
  from i have 3: "replaceAll ''instruct'' ''it'' ?y = ?y"
    by (rule replaceAll_no_match)
  from assms(2) have 2: "replaceAll ''large'' '''' ?y = ?y"
    by (rule replaceAll_no_match)
  from assms(1) have 1: "replaceAll ''small'' '''' ?y = ?y"
    by (rule replaceAll_no_match)
  show ?thesis
    by (simp only: normalize_normalized 1 2 3 4)
qed

lemma normalize_shrinks:
  assumes "hasMatch ''small'' (normalizeModelName x) \<or> hasMatch ''large'' (normalizeModelName x)"
  shows "length (normalizeModelName (normalizeModelName x)) < length (normalizeModelName x)"
proof (cases "hasMatch ''small'' (normalizeModelName x)")
  case True
  have "length (normalizeModelName (normalizeModelName x))
      \<le> length (replaceAll ''small'' '''' (normalizeModelName x))"
    unfolding normalize_normalized by (rule length_normalize_tail)
  also have "\<dots> < length (normalizeModelName x)"
    using True by (intro length_replaceAll_less) simp_all
  finally show ?thesis .
next
  case False
  with assms have large: "hasMatch ''large'' (normalizeModelName x)"
    by simp
  from False have "replaceAll ''small'' '''' (normalizeModelName x) = normalizeModelName x"
    by (rule replaceAll_no_match)
  then have "length (normalizeModelName (normalizeModelName x))
      \<le> length (replaceAll ''large'' '''' (normalizeModelName x))"
    unfolding normalize_normalized by (simp only: length_normalize_tail2)
  also have "\<dots> < length (normalizeModelName x)"
    using large by (intro length_replaceAll_less) simp_all
  finally show ?thesis .
qed

lemma normalize_smsmallall: "normalizeModelName ''smsmallall'' = ''small''"
  by code_simp

lemma normalize_small: "normalizeModelName ''small'' = ''''"
  by code_simp

text \<open>
  C4, as stated, fails. Removing the match of \<^verbatim>\<open>small\<close> from \<^verbatim>\<open>smsmallall\<close> leaves
  \<^verbatim>\<open>small\<close>, which a second normalization removes.
\<close>

theorem normalize_not_idempotent:
  "normalizeModelName ''smsmallall'' = ''small''
   \<and> normalizeModelName (normalizeModelName ''smsmallall'') = ''''
   \<and> normalizeModelName (normalizeModelName ''smsmallall'') \<noteq> normalizeModelName ''smsmallall''"
  by (simp add: normalize_smsmallall normalize_small)

text \<open>
  C4, amended. Normalizing a second time changes nothing exactly when the normalized name
  contains neither \<^verbatim>\<open>small\<close> nor \<^verbatim>\<open>large\<close>; it never contains \<^verbatim>\<open>instruct\<close>.
\<close>

theorem normalize_idempotent_iff:
  "(normalizeModelName (normalizeModelName x) = normalizeModelName x
      \<longleftrightarrow> \<not> hasMatch ''small'' (normalizeModelName x) \<and> \<not> hasMatch ''large'' (normalizeModelName x))
   \<and> \<not> hasMatch ''instruct'' (normalizeModelName x)"
proof -
  have "normalizeModelName (normalizeModelName x) \<noteq> normalizeModelName x"
    if "hasMatch ''small'' (normalizeModelName x) \<or> hasMatch ''large'' (normalizeModelName x)"
    using normalize_shrinks [OF that] by auto
  then show ?thesis
    using normalize_fixed [of x] normalized_no_instruct [of x] by blast
qed

lemma normalize_instruct_example: "normalizeModelName ''Gemma-2-2B-Instruct'' = ''gemma22bit''"
  by code_simp

lemma gemma22bit_no_match:
  "\<not> hasMatch ''small'' ''gemma22bit''" "\<not> hasMatch ''large'' ''gemma22bit''"
  by code_simp+

theorem normalize_idempotent_iff_witness:
  "normalizeModelName ''Gemma-2-2B-Instruct'' = ''gemma22bit''
   \<and> normalizeModelName (normalizeModelName ''Gemma-2-2B-Instruct'') = ''gemma22bit''"
  using normalize_idempotent_iff [of "''Gemma-2-2B-Instruct''"]
  by (simp only: normalize_instruct_example gemma22bit_no_match) simp

subsection \<open>Matching\<close>

lemma split_no_separator: "\<forall>c \<in> set s. \<not> isSeparator c \<Longrightarrow> split s = [s]"
  by (induction s) simp_all

lemma lower_not_separator: "isLowerAlnum c \<Longrightarrow> \<not> isSeparator c"
  by (auto simp add: isLowerAlnum_def isSeparator_def lowerCase_def decimalDigits_def)

lemma split_normalized: "split (normalizeModelName x) = [normalizeModelName x]"
  by (rule split_no_separator) (simp add: normalized_all lower_not_separator)

text \<open>
  The normalization deletes the separators before the names are split, so each name is one
  part and the comparison of parts adds nothing to the comparison of the normalized names.
\<close>

lemma isModelMatch_iff:
  "isModelMatch serverModel requestedModel \<longleftrightarrow>
     normalizeModelName serverModel = normalizeModelName requestedModel"
  by (auto simp add: isModelMatch_def Let_def split_normalized)

lemma probeAll_sizeVariants:
  "probeAll (dynamicEnv t sizeVariants) =
     [\<lparr>port = 5002, modelId = ''gpt2'', url = ''http://127.0.0.1:5002'', health = True\<rparr>,
      \<lparr>port = 5005, modelId = ''gpt2-small'', url = ''http://127.0.0.1:5005'', health = True\<rparr>]"
proof -
  have "probeAll (dynamicEnv t sizeVariants) =
      concat (map (probe (dynamicEnv t sizeVariants)) portsToCheck)"
    by (simp add: probeAll_def dynamicEnv_def sort_ports_by_port)
  also have "\<dots> =
     [\<lparr>port = 5002, modelId = ''gpt2'', url = ''http://127.0.0.1:5002'', health = True\<rparr>,
      \<lparr>port = 5005, modelId = ''gpt2-small'', url = ''http://127.0.0.1:5005'', health = True\<rparr>]"
    by (simp add: eval_probe sizeVariants_def)
  finally show ?thesis .
qed

lemma discover_initial:
  "discoverInferenceServers env initialCache =
     (probeAll env, \<lparr>cachedServers = probeAll env, lastDiscovery = dateNow env\<rparr>,
      map (healthUrl env) portsToCheck)"
  by (simp add: discover_miss initialCache_def)

lemma normalize_examples:
  "normalizeModelName ''gpt2'' = ''gpt2''"
  "normalizeModelName ''gpt2-small'' = ''gpt2''"
  "normalizeModelName ''gemma-2-2b'' = ''gemma22b''"
  "normalizeModelName ''gemma-2-2b-it'' = ''gemma22bit''"
  "normalizeModelName ''llama-3'' = ''llama3''"
  by code_simp+

text \<open>
  C2. A request that is equal to the identifier of a healthy descriptor should get the URL
  of that descriptor, also when another descriptor matches by normalization. The code does
  not do this. The snapshot holds a server that reports \<^verbatim>\<open>gpt2\<close> (port 5002) and,
  after it, one that reports \<^verbatim>\<open>gpt2-small\<close> (port 5005). For the request
  \<^verbatim>\<open>gpt2-small\<close>, which is equal to the identifier of the second, the single pass of
  \<^verbatim>\<open>find\<close> stops at the first, which matches by normalization, and the matcher returns
  the URL of port 5002.
\<close>

theorem exact_match_loses_to_earlier_normalized_match:
  "fst (discoverInferenceServers (dynamicEnv 1000000 sizeVariants) initialCache) =
     [\<lparr>port = 5002, modelId = ''gpt2'', url = ''http://127.0.0.1:5002'', health = True\<rparr>,
      \<lparr>port = 5005, modelId = ''gpt2-small'', url = ''http://127.0.0.1:5005'', health = True\<rparr>]
   \<and> isModelMatch ''gpt2'' ''gpt2-small''
   \<and> fst (getInferenceServerForModel (dynamicEnv 1000000 sizeVariants) initialCache ''gpt2-small'')
       = Some ''http://127.0.0.1:5002''"
  by (simp add: getInferenceServerForModel_eq discover_initial probeAll_sizeVariants
      selectServer_def isModelMatch_iff normalize_examples)

text \<open>
  C3. The request flow of \<^verbatim>\<open>docs/MULTIPLE_INFERENCE_SERVERS.md\<close>: \<^verbatim>\<open>gpt2-small\<close> runs
  on port 5002 and \<^verbatim>\<open>gemma-2-2b-it\<close> on port 5005, and \<^verbatim>\<open>gemma-2-2b\<close> is requested.
  The two names do not match: normalized they are \<^verbatim>\<open>gemma22bit\<close> and \<^verbatim>\<open>gemma22b\<close>,
  each a single part. No server matches, and the fallback returns the first healthy
  server, which is the one on port 5002.
\<close>

theorem gemma_request_gets_fallback_server:
  "fst (discoverInferenceServers (dynamicEnv 1000000 twoServers) initialCache) =
     [\<lparr>port = 5002, modelId = ''gpt2-small'', url = ''http://127.0.0.1:5002'', health = True\<rparr>,
      \<lparr>port = 5005, modelId = ''gemma-2-2b-it'', url = ''http://127.0.0.1:5005'', health = True\<rparr>]
   \<and> split (normalizeModelName ''gemma-2-2b-it'') = [''gemma22bit'']
   \<and> split (normalizeModelName ''gemma-2-2b'') = [''gemma22b'']
   \<and> isModelMatch ''gemma-2-2b-it'' ''gemma-2-2b'' = False
   \<and> fst (getInferenceServerForModel (dynamicEnv 1000000 twoServers) initialCache ''gemma-2-2b'')
       = Some ''http://127.0.0.1:5002''
   \<and> fst (getDynamicLocalhostInferenceHost (dynamicEnv 1000000 twoServers) initialCache
         (Some ''gemma-2-2b'')) = ''http://127.0.0.1:5002''"
  by (simp add: getDynamicLocalhostInferenceHost_def getInferenceServerForModel_eq discover_initial
      probeAll_twoServers selectServer_def isModelMatch_iff normalize_examples isSeparator_def)

text \<open>
  C7. \<open>getInferenceServerForModel\<close> returns \<^verbatim>\<open>null\<close> exactly when the snapshot it
  obtained holds no healthy descriptor: when no healthy descriptor matches the request, the
  first healthy descriptor of the snapshot, if there is one, is returned as a fallback. And
  whenever it returns \<^verbatim>\<open>null\<close>, \<open>getDynamicLocalhostInferenceHost\<close> returns
  \<open>LOCALHOST_INFERENCE_HOST\<close>.
\<close>

theorem matcher_absent_iff_no_healthy_server:
  "(fst (getInferenceServerForModel env st requested) = None
      \<longleftrightarrow> (\<forall>s \<in> set (fst (discoverInferenceServers env st)). \<not> health s))
   \<and> ((\<forall>s \<in> set (fst (discoverInferenceServers env st)).
          \<not> (health s \<and> isModelMatch (modelId s) requested)) \<longrightarrow>
        fst (getInferenceServerForModel env st requested) =
          map_option url (find health (fst (discoverInferenceServers env st))))
   \<and> (fst (getInferenceServerForModel env st requested) = None \<longrightarrow>
        fst (getDynamicLocalhostInferenceHost env st (Some requested)) =
          LOCALHOST_INFERENCE_HOST env)"
proof (intro conjI impI)
  show "fst (getInferenceServerForModel env st requested) = None
      \<longleftrightarrow> (\<forall>s \<in> set (fst (discoverInferenceServers env st)). \<not> health s)"
    by (simp add: getInferenceServerForModel_eq selectServer_None_iff)
next
  assume "\<forall>s \<in> set (fst (discoverInferenceServers env st)).
      \<not> (health s \<and> isModelMatch (modelId s) requested)"
  then have "find (\<lambda>server. health server \<and> isModelMatch (modelId server) requested)
      (fst (discoverInferenceServers env st)) = None"
    by (simp add: find_None_iff)
  then show "fst (getInferenceServerForModel env st requested) =
      map_option url (find health (fst (discoverInferenceServers env st)))"
    by (simp add: getInferenceServerForModel_eq selectServer_def split: option.splits)
next
  assume "fst (getInferenceServerForModel env st requested) = None"
  then show "fst (getDynamicLocalhostInferenceHost env st (Some requested)) =
      LOCALHOST_INFERENCE_HOST env"
    by (simp add: getDynamic_default)
qed

theorem matcher_absent_iff_no_healthy_server_witness:
  "fst (getInferenceServerForModel (dynamicEnv 1000000 allDown) initialCache ''gpt2-small'') = None
   \<and> fst (discoverInferenceServers (dynamicEnv 1000000 allDown) initialCache) = []
   \<and> fst (getDynamicLocalhostInferenceHost (dynamicEnv 1000000 allDown) initialCache
        (Some ''gpt2-small'')) = ''http://127.0.0.1:5002''
   \<and> fst (getInferenceServerForModel (dynamicEnv 1000000 twoServers) initialCache ''llama-3'')
        = Some ''http://127.0.0.1:5002''"
  using matcher_absent_iff_no_healthy_server
      [of "dynamicEnv 1000000 allDown" initialCache "''gpt2-small''"]
    matcher_absent_iff_no_healthy_server
      [of "dynamicEnv 1000000 twoServers" initialCache "''llama-3''"]
  by (simp add: discover_initial probeAll_allDown probeAll_twoServers isModelMatch_iff
      normalize_examples LOCALHOST_INFERENCE_HOST_def dynamicEnv_fields)

subsection \<open>Selectors and the access check\<close>

lemma staticEnv_fields:
  "USE_LOCALHOST_INFERENCE (staticEnv catalog granted sourceHosts draws) = False"
  "sources (staticEnv catalog granted sourceHosts draws) = catalog"
  "userCanAccessModelAndSourceSet (staticEnv catalog granted sourceHosts draws) = (\<lambda>m s u b. granted)"
  "getSourceInferenceHosts (staticEnv catalog granted sourceHosts draws) = (\<lambda>m s u. sourceHosts)"
  "mathRandom (staticEnv catalog granted sourceHosts draws) = draws"
  by (simp_all add: staticEnv_def)

lemma dynamicEnv_access:
  "userCanAccessModelAndSourceSet (dynamicEnv t answers) = (\<lambda>m s u b. False)"
  by (simp add: dynamicEnv_def)

lemma getDynamic_oneServer:
  "getDynamicLocalhostInferenceHost (dynamicEnv t oneServer) initialCache (Some ''gpt2-small'') =
     (''http://127.0.0.1:5002'',
      \<lparr>cachedServers = probeAll (dynamicEnv t oneServer), lastDiscovery = t\<rparr>,
      map (healthUrl (dynamicEnv t oneServer)) portsToCheck)"
  by (simp add: getDynamicLocalhostInferenceHost_def getInferenceServerForModel_eq discover_initial
      probeAll_oneServer selectServer_def isModelMatch_iff dynamicEnv_fields)

text \<open>
  C5, as stated, fails. In dynamic mode, for a user who is denied access to the source set,
  the dual-host selector does not fail: it returns the discovered host twice.
\<close>

theorem dual_selector_skips_access_check_in_dynamic_mode:
  "\<not> userCanAccessModelAndSourceSet (dynamicEnv 1000000 oneServer) ''gpt2-small'' ''res-jb'' None True
   \<and> USE_LOCALHOST_INFERENCE (dynamicEnv 1000000 oneServer)
   \<and> map_option fst (getTwoRandomServerHostsForSourceSet (dynamicEnv 1000000 oneServer) initialCache
        ''gpt2-small'' ''res-jb'' None)
       = Some (Inr [Some ''http://127.0.0.1:5002'', Some ''http://127.0.0.1:5002''])"
  by (simp add: getTwoRandomServerHostsForSourceSet_def getDynamic_oneServer dynamicEnv_fields
      dynamicEnv_access)

text \<open>
  C5, amended. For a user who is denied access to the pair of model and source set, the
  single-host selector returns \<^verbatim>\<open>null\<close> in both modes, without touching the cache or
  probing. The dual-host selector fails with \<^verbatim>\<open>Source set not found.\<close> in static mode
  only: in dynamic mode it does not check the access and returns twice the host that
  \<open>getDynamicLocalhostInferenceHost\<close> gives.
\<close>

theorem denied_access_null_or_error:
  assumes "\<not> userCanAccessModelAndSourceSet env requested sourceSetName user True"
  shows "getOneRandomServerHostForSourceSet env st requested sourceSetName user = (None, st, [])
    \<and> (\<not> USE_LOCALHOST_INFERENCE env \<longrightarrow>
         getTwoRandomServerHostsForSourceSet env st requested sourceSetName user =
           Some (Inl (Error ''Source set not found.''), st, []))
    \<and> (USE_LOCALHOST_INFERENCE env \<longrightarrow>
         getTwoRandomServerHostsForSourceSet env st requested sourceSetName user =
           (case getDynamicLocalhostInferenceHost env st (Some requested) of
              (dynamicHost, st', requests) \<Rightarrow>
                Some (Inr [Some dynamicHost, Some dynamicHost], st', requests)))"
  using assms
  by (simp add: getOneRandomServerHostForSourceSet_def getTwoRandomServerHostsForSourceSet_def
      split: prod.splits)

theorem denied_access_null_or_error_witness:
  "getOneRandomServerHostForSourceSet (staticEnv exampleCatalog False None exampleDraws) initialCache
       ''gpt2-small'' ''res-jb'' None = (None, initialCache, [])
   \<and> getTwoRandomServerHostsForSourceSet (staticEnv exampleCatalog False None exampleDraws) initialCache
       ''gpt2-small'' ''res-jb'' None = Some (Inl (Error ''Source set not found.''), initialCache, [])
   \<and> getOneRandomServerHostForSourceSet (dynamicEnv 1000000 oneServer) initialCache
       ''gpt2-small'' ''res-jb'' None = (None, initialCache, [])
   \<and> map_option fst (getTwoRandomServerHostsForSourceSet (dynamicEnv 1000000 oneServer) initialCache
       ''gpt2-small'' ''res-jb'' None)
       = Some (Inr [Some ''http://127.0.0.1:5002'', Some ''http://127.0.0.1:5002''])"
proof -
  have s: "\<not> userCanAccessModelAndSourceSet (staticEnv exampleCatalog False None exampleDraws)
      ''gpt2-small'' ''res-jb'' None True"
    by (simp add: staticEnv_fields)
  have d: "\<not> userCanAccessModelAndSourceSet (dynamicEnv 1000000 oneServer)
      ''gpt2-small'' ''res-jb'' None True"
    by (simp add: dynamicEnv_access)
  show ?thesis
    using denied_access_null_or_error [OF s, of initialCache]
      denied_access_null_or_error [OF d, of initialCache]
    by (simp add: staticEnv_fields dynamicEnv_fields getDynamic_oneServer)
qed

subsection \<open>Reading a host at a random index\<close>

lemma elementAt_nth: "i < length xs \<Longrightarrow> elementAt xs i = Some (xs ! i)"
  by (induction xs i rule: elementAt.induct) simp_all

lemma shiftCount_small: "K < 2 ^ 53 \<Longrightarrow> shiftCount K = 0"
  by (subst shiftCount.simps) simp

lemma shiftCount_large: "\<not> K < 2 ^ 53 \<Longrightarrow> shiftCount K = Suc (shiftCount (K div 2))"
  by (subst shiftCount.simps) simp

lemma shiftCount_upper: "K < 2 ^ (53 + shiftCount K)"
proof (induction K rule: shiftCount.induct)
  case (1 K)
  show ?case
  proof (cases "K < 2 ^ 53")
    case True
    then show ?thesis
      by (simp add: shiftCount_small)
  next
    case False
    with 1 have "K div 2 < 2 ^ (53 + shiftCount (K div 2))"
      by simp
    then have "K < 2 * 2 ^ (53 + shiftCount (K div 2))"
      by linarith
    then have "K < 2 ^ (53 + Suc (shiftCount (K div 2)))"
      by (simp only: add_Suc_right power_Suc)
    moreover from False have "shiftCount K = Suc (shiftCount (K div 2))"
      by (rule shiftCount_large)
    ultimately show ?thesis
      by simp
  qed
qed

lemma shiftCount_lower: "0 < shiftCount K \<Longrightarrow> 2 ^ (52 + shiftCount K) \<le> K"
proof (induction K rule: shiftCount.induct)
  case (1 K)
  from "1.prems" have large: "\<not> K < 2 ^ 53"
    using shiftCount_small [of K] by auto
  show ?case
  proof (cases "shiftCount (K div 2) = 0")
    case True
    with large have "shiftCount K = Suc 0"
      by (simp add: shiftCount_large)
    moreover from large have "(2::nat) ^ (52 + Suc 0) \<le> K"
      by simp
    ultimately show ?thesis
      by simp
  next
    case False
    with 1 large have "2 ^ (52 + shiftCount (K div 2)) \<le> K div 2"
      by simp
    then have "2 * 2 ^ (52 + shiftCount (K div 2)) \<le> K"
      by linarith
    then have "2 ^ (52 + Suc (shiftCount (K div 2))) \<le> K"
      by (simp only: add_Suc_right power_Suc)
    moreover from large have "shiftCount K = Suc (shiftCount (K div 2))"
      by (rule shiftCount_large)
    ultimately show ?thesis
      by simp
  qed
qed

lemma round53_small: "K < 2 ^ 53 \<Longrightarrow> round53 K = K"
  by (simp add: round53_def shiftCount_small)

text \<open>Rounding moves an integer up by half a unit of the last place at most.\<close>

lemma round53_upper: "2 * round53 K \<le> 2 * K + 2 ^ shiftCount K"
proof -
  define P :: nat where "P = 2 ^ shiftCount K"
  define q where "q = K div P"
  define r where "r = K mod P"
  have K: "K = q * P + r"
    by (simp add: q_def r_def)
  have up: "(q + 1) * P = q * P + P"
    by (simp add: algebra_simps)
  have "round53 K = K \<or> round53 K = q * P \<or> (P \<le> 2 * r \<and> round53 K = (q + 1) * P)"
    by (auto simp add: round53_def Let_def P_def q_def r_def)
  with K up show ?thesis
    unfolding P_def [symmetric] by auto
qed

lemma randomIndex_zero: "randomIndex env k 0 = 0"
  by (simp add: randomIndex_def round53_small)

text \<open>
  The index is in range: the product of a double below 1 and a length is rounded to a
  double below the length, also when it is rounded up.
\<close>

lemma randomIndex_less:
  assumes d: "isUnitDouble (mathRandom env k)" and n: "0 < n"
  shows "randomIndex env k n < n"
proof -
  define m where "m = mantissa (mathRandom env k)"
  define j where "j = scale (mathRandom env k)"
  define K where "K = m * n"
  from d have m53: "m < 2 ^ 53" and mj: "Suc m \<le> 2 ^ j"
    by (simp_all add: isUnitDouble_def m_def j_def)
  from mj have room: "K + n \<le> 2 ^ j * n"
    using mult_le_mono1 [of "Suc m" "2 ^ j" n] by (simp add: K_def)
  have "round53 K < n * 2 ^ j"
  proof (cases "shiftCount K = 0")
    case True
    then have "K < 2 ^ 53"
      using shiftCount_large [of K] by auto
    then have "round53 K = K"
      by (rule round53_small)
    with room n show ?thesis
      by (simp add: mult.commute)
  next
    case False
    then have "2 ^ (52 + shiftCount K) \<le> K"
      by (simp add: shiftCount_lower)
    moreover from m53 n have "K < 2 ^ 53 * n"
      by (simp add: K_def)
    ultimately have "(2::nat) ^ 52 * 2 ^ shiftCount K < 2 ^ 52 * (2 * n)"
      by (simp add: power_add)
    then have "(2::nat) ^ shiftCount K < 2 * n"
      by (simp only: mult_less_cancel1)
    with round53_upper [of K] have "2 * round53 K < 2 * K + 2 * n"
      by linarith
    with room show ?thesis
      by (simp add: mult.commute)
  qed
  then have "round53 K div 2 ^ j < n"
    by (rule less_mult_imp_div_less)
  then show ?thesis
    by (simp add: randomIndex_def Let_def m_def j_def K_def)
qed

lemma twoThirds_unit: "isUnitDouble twoThirds"
  by (simp add: isUnitDouble_def twoThirds_def)

lemma round53_twoThirds: "round53 18014398509481983 = 18014398509481984"
proof -
  have "shiftCount 18014398509481983 = Suc (shiftCount 9007199254740991)"
    by (subst shiftCount.simps) simp
  also have "shiftCount 9007199254740991 = 0"
    by (subst shiftCount.simps) simp
  finally show ?thesis
    by (simp add: round53_def)
qed

lemma randomIndex_twoThirds:
  "mathRandom env k = twoThirds \<Longrightarrow> randomIndex env k 3 = 2"
  by (simp add: randomIndex_def twoThirds_def round53_twoThirds)

text \<open>
  C6. In static mode \<open>getOneRandomServerHostForSource\<close> throws \<^verbatim>\<open>Source not found.\<close>
  when the lookup returns \<^verbatim>\<open>null\<close>. When the lookup returns the empty list, the index
  is 0 and reading \<^verbatim>\<open>hosts[0].inferenceHost\<close> throws a \<^verbatim>\<open>TypeError\<close>. When the
  list is not empty (and the draw is a double in \<open>[0, 1)\<close>) the index, computed in doubles,
  is in range and the host at that index is returned. The function never throws
  \<^verbatim>\<open>No hosts found.\<close>, whereas for an empty list of hosts the other selectors throw it
  (model-scoped single host, both dual-host selectors) or return \<^verbatim>\<open>null\<close> (single host
  of a source set).
\<close>

theorem source_selector_has_no_empty_guard:
  assumes "\<not> USE_LOCALHOST_INFERENCE env"
  shows "(getSourceInferenceHosts env requested sourceId user = None \<longrightarrow>
            getOneRandomServerHostForSource env st requested sourceId user =
              (Inl (Error ''Source not found.''), st, []))
    \<and> (getSourceInferenceHosts env requested sourceId user = Some [] \<longrightarrow>
            randomIndex env 0 (length ([] :: string list)) = 0
          \<and> elementAt ([] :: string list) 0 = None
          \<and> getOneRandomServerHostForSource env st requested sourceId user = (Inl TypeError, st, []))
    \<and> (\<forall>hosts. getSourceInferenceHosts env requested sourceId user = Some hosts \<and> hosts \<noteq> []
            \<and> isUnitDouble (mathRandom env 0) \<longrightarrow>
          randomIndex env 0 (length hosts) < length hosts
          \<and> getOneRandomServerHostForSource env st requested sourceId user =
              (Inr (hosts ! randomIndex env 0 (length hosts)), st, []))
    \<and> fst (getOneRandomServerHostForSource env st requested sourceId user)
          \<noteq> Inl (Error ''No hosts found.'')
    \<and> (getAllServerHostsForModel env requested = [] \<longrightarrow>
          getOneRandomServerHostForModel env st requested = (Inl (Error ''No hosts found.''), st, [])
        \<and> getTwoRandomServerHostsForModel env st requested =
            Some (Inl (Error ''No hosts found.''), st, []))
    \<and> (getAllServerHostsForSourceSet env requested sourceSetName = []
          \<and> userCanAccessModelAndSourceSet env requested sourceSetName user True \<longrightarrow>
          getOneRandomServerHostForSourceSet env st requested sourceSetName user = (None, st, [])
        \<and> getTwoRandomServerHostsForSourceSet env st requested sourceSetName user =
            Some (Inl (Error ''No hosts found.''), st, []))"
proof -
  have "getOneRandomServerHostForSource env st requested sourceId user =
      (Inr (hosts ! randomIndex env 0 (length hosts)), st, [])"
    and "randomIndex env 0 (length hosts) < length hosts"
    if "getSourceInferenceHosts env requested sourceId user = Some hosts" "hosts \<noteq> []"
      "isUnitDouble (mathRandom env 0)" for hosts
  proof -
    from that show i: "randomIndex env 0 (length hosts) < length hosts"
      by (simp add: randomIndex_less)
    with that assms show "getOneRandomServerHostForSource env st requested sourceId user =
      (Inr (hosts ! randomIndex env 0 (length hosts)), st, [])"
      by (simp add: getOneRandomServerHostForSource_def elementAt_nth)
  qed
  moreover have "fst (getOneRandomServerHostForSource env st requested sourceId user)
      \<noteq> Inl (Error ''No hosts found.'')"
    using assms
    by (simp add: getOneRandomServerHostForSource_def split: option.splits)
  ultimately show ?thesis
    using assms
    by (simp add: getOneRandomServerHostForSource_def randomIndex_zero
        getOneRandomServerHostForModel_def getTwoRandomServerHostsForModel_def
        getOneRandomServerHostForSourceSet_def getTwoRandomServerHostsForSourceSet_def pickTwo_def)
qed

lemma exampleDraws_unit: "isUnitDouble (exampleDraws k)"
  by (simp add: exampleDraws_def isUnitDouble_def)

lemma exampleDraws_indices:
  "randomIndex (staticEnv catalog granted sourceHosts exampleDraws) 0 (Suc (Suc 0)) = 0"
  "randomIndex (staticEnv catalog granted sourceHosts exampleDraws) (Suc 0) (Suc (Suc 0)) = 0"
  "randomIndex (staticEnv catalog granted sourceHosts exampleDraws) 2 (Suc (Suc 0)) = Suc 0"
  by (simp_all add: randomIndex_def staticEnv_fields exampleDraws_def round53_small)

text \<open>
  The third instance of the witness is rounded up: the draw is \<^verbatim>\<open>0.6666666666666666\<close>,
  there are three hosts, and the host returned is the third, not the second.
\<close>

theorem source_selector_has_no_empty_guard_witness:
  "getOneRandomServerHostForSource (staticEnv [] True None exampleDraws) initialCache
       ''gpt2-small'' ''0-res-jb'' None = (Inl (Error ''Source not found.''), initialCache, [])
   \<and> getOneRandomServerHostForSource (staticEnv [] True (Some []) exampleDraws) initialCache
       ''gpt2-small'' ''0-res-jb'' None = (Inl TypeError, initialCache, [])
   \<and> getOneRandomServerHostForSource
         (staticEnv [] True (Some [''http://10.0.0.1:5002'', ''http://10.0.0.2:5002'']) exampleDraws)
         initialCache ''gpt2-small'' ''0-res-jb'' None
       = (Inr ''http://10.0.0.1:5002'', initialCache, [])
   \<and> getOneRandomServerHostForSource (staticEnv [] True (Some threeHosts) (\<lambda>k. twoThirds))
         initialCache ''gpt2-small'' ''0-res-jb'' None
       = (Inr ''http://10.0.0.3:5002'', initialCache, [])
   \<and> getOneRandomServerHostForModel (staticEnv [] True (Some []) exampleDraws) initialCache
       ''gpt2-small'' = (Inl (Error ''No hosts found.''), initialCache, [])
   \<and> getOneRandomServerHostForSourceSet (staticEnv [] True (Some []) exampleDraws) initialCache
       ''gpt2-small'' ''res-jb'' None = (None, initialCache, [])"
proof -
  have s: "\<not> USE_LOCALHOST_INFERENCE (staticEnv [] True h draws)" for h draws
    by (simp add: staticEnv_fields)
  have r: "randomIndex (staticEnv [] True h (\<lambda>k. twoThirds)) 0 (Suc (Suc (Suc 0))) = 2" for h
    using randomIndex_twoThirds [of "staticEnv [] True h (\<lambda>k. twoThirds)" 0]
    by (simp add: staticEnv_fields numeral_3_eq_3)
  show ?thesis
    using source_selector_has_no_empty_guard [OF s, of None exampleDraws "''gpt2-small''"
        "''0-res-jb''" None initialCache "''res-jb''"]
      source_selector_has_no_empty_guard [OF s, of "Some []" exampleDraws "''gpt2-small''"
        "''0-res-jb''" None initialCache "''res-jb''"]
      source_selector_has_no_empty_guard [OF s,
        of "Some [''http://10.0.0.1:5002'', ''http://10.0.0.2:5002'']" exampleDraws
        "''gpt2-small''" "''0-res-jb''" None initialCache "''res-jb''"]
      source_selector_has_no_empty_guard [OF s, of "Some threeHosts" "\<lambda>k. twoThirds"
        "''gpt2-small''" "''0-res-jb''" None initialCache "''res-jb''"]
    by (simp add: staticEnv_fields r exampleDraws_indices exampleDraws_unit twoThirds_unit
        getAllServerHostsForModel_def getAllServerHostsForSourceSet_def threeHosts_def)
qed

subsection \<open>Dual-host selection\<close>





text \<open>
  The rejection loop returns at the first draw that gives an index other than the first
  one.
\<close>

lemma resample_other: "j \<noteq> i \<Longrightarrow> resample env n i k j = Some j"
  by (subst resample.simps) simp

lemma resample_same: "resample env n i k i = resample env n i (Suc k) (randomIndex env k n)"
  by (subst resample.simps) simp







lemma getTwoForModel_static:
  "\<not> USE_LOCALHOST_INFERENCE env \<Longrightarrow>
   getTwoRandomServerHostsForModel env st requested =
     map_option (\<lambda>r. (r, st, [])) (pickTwo env (getAllServerHostsForModel env requested))"
  by (simp add: getTwoRandomServerHostsForModel_def)










lemma exampleCatalog_hosts:
  "getAllServerHostsForModel (staticEnv exampleCatalog granted sourceHosts draws) ''gpt2-small'' =
     [''http://10.0.0.1:5002'', ''http://10.0.0.2:5002'', ''http://10.0.0.1:5002'']"
  "getAllServerHostsForSourceSet (staticEnv exampleCatalog granted sourceHosts draws)
       ''gpt2-small'' ''res-jb'' =
     [''http://10.0.0.1:5002'', ''http://10.0.0.2:5002'', ''http://10.0.0.1:5002'']"
  "getAllServerHostsForModel (staticEnv (tl exampleCatalog) granted sourceHosts draws) ''gpt2-small'' =
     [''http://10.0.0.1:5002'']"
  "getAllServerHostsForModel (staticEnv [] granted sourceHosts draws) ''gpt2-small'' = []"
  by (simp_all add: getAllServerHostsForModel_def getAllServerHostsForSourceSet_def
      staticEnv_fields exampleCatalog_def)

lemma unique_examples:
  "unique [''http://10.0.0.1:5002'', ''http://10.0.0.2:5002'', ''http://10.0.0.1:5002''] =
     [''http://10.0.0.1:5002'', ''http://10.0.0.2:5002'']"
  "unique [''http://10.0.0.1:5002''] = [''http://10.0.0.1:5002'']"
  by (simp_all add: unique_def)


text \<open>The run of the example: index 0, then 0 again, which is rejected, then 1.\<close>

lemma dual_host_example_run:
  "getTwoRandomServerHostsForModel (staticEnv exampleCatalog True None exampleDraws)
       initialCache ''gpt2-small''
     = Some (Inr [Some ''http://10.0.0.1:5002'', Some ''http://10.0.0.2:5002''], initialCache, [])"
proof -
  let ?E = "staticEnv exampleCatalog True None exampleDraws"
  note i = exampleDraws_indices [of exampleCatalog True None]
  have "resample ?E (Suc (Suc 0)) 0 2 0 = resample ?E (Suc (Suc 0)) 0 3 (Suc 0)"
    using resample_same [of ?E "Suc (Suc 0)" 0 2] by (simp add: i)
  also have "\<dots> = Some (Suc 0)"
    by (simp add: resample_other)
  finally show ?thesis
    by (simp add: getTwoForModel_static staticEnv_fields pickTwo_def exampleCatalog_hosts
        unique_examples i)
qed

end
